theory Spec2Isabelle
  imports Complex_Main
begin

section \<open>Data model\<close>

text \<open>
  The repository keeps one JSON file per directed pair of countries,
  \<^verbatim>\<open>data/flow_<from>_<to>.json\<close>, holding records with a \<^verbatim>\<open>timestamp\<close> and a
  \<^verbatim>\<open>flow\<close>. The scripts \<^verbatim>\<open>fetch_data.py\<close> and \<^verbatim>\<open>import_csv.py\<close> write these
  files, the dashboard \<^verbatim>\<open>app.py\<close> reads them.

  An instant is a point on the time line and a date is a calendar day, both numbered by
  integers. The timestamps of a file are instants: both scripts write timestamps that
  carry a time zone. A flow is a float of the source: a rational number or NaN
  (rounding of IEEE doubles is not part of the model). A series is the list of the rows
  of a frame in their order, so duplicate timestamps can be written down.
\<close>

type_synonym instant = int
type_synonym date = int

datatype val = NaN | Num rat

type_synonym series = "(instant \<times> val) list"

text \<open>
  What reading a file that exists gives: either an exception (\<open>Unreadable\<close>: raised by
  \<^verbatim>\<open>pd.read_json\<close> or by the conversion of the timestamps), or a frame, of which the code
  looks at whether it has a \<^verbatim>\<open>timestamp\<close> column and at its rows, each with its flow.
  The file system is a map from file names to such contents; \<open>None\<close> is a file that
  does not exist.
\<close>

datatype file_content = Unreadable | Frame bool series

type_synonym store = "string \<Rightarrow> file_content option"

record country =
  code :: string
  name :: string
  neighbors :: "string list"

datatype py_error = ZeroDivisionError | StopIteration

section \<open>Shared functions of the dashboard\<close>

definition filename :: "string \<Rightarrow> string \<Rightarrow> string" where
  "filename code_from code_to = ''data/flow_'' @ code_from @ ''_'' @ code_to @ ''.json''"

text \<open>
  \<^verbatim>\<open>get_flow_data\<close>: the frame indexed by timestamp when the file exists, can be read,
  is not empty and has a timestamp column; \<open>None\<close> on every other path (an exception is
  caught and reported, then \<open>None\<close> is returned).
\<close>

definition get_flow_data :: "store \<Rightarrow> string \<Rightarrow> string \<Rightarrow> series option" where
  "get_flow_data st code_from code_to =
     (case st (filename code_from code_to) of
        None \<Rightarrow> None
      | Some Unreadable \<Rightarrow> None
      | Some (Frame has_timestamp df) \<Rightarrow>
          if df \<noteq> [] \<and> has_timestamp then Some df else None)"

section \<open>Missing Data Analysis\<close>

text \<open>Python's \<^verbatim>\<open>str\<close> of a natural number and \<^verbatim>\<open>sep.join\<close>.\<close>

function str_nat :: "nat \<Rightarrow> string" where
  "str_nat n =
     (if n < 10 then [''0123456789'' ! n]
      else str_nat (n div 10) @ [''0123456789'' ! (n mod 10)])"
  by pat_completeness auto
termination
  by (relation "measure id") auto

fun join :: "string \<Rightarrow> string list \<Rightarrow> string" where
  "join sep [] = []"
| "join sep [s] = s"
| "join sep (s # t # ts) = s @ sep @ join sep (t # ts)"

text \<open>One line of the report. \<open>Completeness\<close> is the number before it is printed
  with one decimal.\<close>

record report_entry =
  From :: string
  To :: string
  Status :: string
  Completeness :: rat
  Missing_Info :: string

text \<open>
  The rows within the checked range. \<open>localize\<close> stands for
  \<^verbatim>\<open>pd.Timestamp(d).tz_localize('Europe/Brussels')\<close>, the instant at which the date
  \<open>d\<close> begins in the reference time zone; the time zone table is not part of the
  repository and is a parameter.
\<close>

definition in_range :: "(date \<Rightarrow> instant) \<Rightarrow> date \<Rightarrow> date \<Rightarrow> series \<Rightarrow> series" where
  "in_range localize start_check end_check df =
     filter (\<lambda>row. localize start_check \<le> fst row \<and> fst row \<le> localize end_check) df"

text \<open>
  Lines 275 and 276: true division of the count by the hours of the whole days between
  the two dates, times 100, capped at 100. The division raises when the two dates are
  the same day.
\<close>

definition completeness_of :: "nat \<Rightarrow> date \<Rightarrow> date \<Rightarrow> py_error + rat" where
  "completeness_of actual_count start_check end_check =
     (let expected = (end_check - start_check) * 24 in
      if expected = 0 then Inl ZeroDivisionError
      else Inr (min 100 ((of_nat actual_count / of_int expected) * 100)))"

text \<open>
  The missing days (lines 284 to 286). \<^verbatim>\<open>all_days\<close> is \<^verbatim>\<open>pd.date_range\<close> over the two
  dates: the midnights of the days from the start date to the end date, timestamps
  without a time zone. \<^verbatim>\<open>present_days\<close> are the timestamps of the rows in the range cut
  down to their midnight (\<open>day_of\<close> gives the calendar day of an instant); the rows were
  just compared with the localized bounds, so their timestamps have a time zone.
  \<^verbatim>\<open>difference\<close> keeps the values of \<^verbatim>\<open>all_days\<close> that are equal to no value of
  \<^verbatim>\<open>present_days\<close>, and pandas holds a timestamp without a time zone equal to none with
  a time zone: the two kinds are two constructors.
\<close>

datatype day_stamp = Naive date | Aware date

fun date_of :: "day_stamp \<Rightarrow> date" where
  "date_of (Naive d) = d"
| "date_of (Aware d) = d"

definition unique :: "'a list \<Rightarrow> 'a list" where
  "unique xs = rev (remdups (rev xs))"

definition missing_of :: "(instant \<Rightarrow> date) \<Rightarrow> date \<Rightarrow> date \<Rightarrow> series \<Rightarrow> day_stamp list" where
  "missing_of day_of start_check end_check df_range =
     (let all_days = map Naive [start_check..end_check];
          present_days = unique (map (\<lambda>row. Aware (day_of (fst row))) df_range)
      in filter (\<lambda>d. d \<notin> set present_days) all_days)"

definition missing_days_of :: "(date \<Rightarrow> string) \<Rightarrow> day_stamp list \<Rightarrow> string" where
  "missing_days_of str_date missing =
     (if length missing > 0 then
        if length missing > 10 then
          str_nat (length missing) @ '' days missing (e.g. '' @
            str_date (date_of (missing ! 0)) @ ''...)''
        else join '', '' (map (\<lambda>d. str_date (date_of d)) missing)
      else ''Partial hours missing'')"

text \<open>
  The body of the loop over the pairs: the entry starts as \<^verbatim>\<open>Missing File\<close>, \<^verbatim>\<open>All\<close>,
  0.0 and each branch overwrites what it assigns. An exception inside the \<^verbatim>\<open>try\<close>
  sets the status to \<^verbatim>\<open>Error Reading\<close> and leaves the other two as they are at that
  moment.
\<close>

definition audit_pair ::
  "(date \<Rightarrow> instant) \<Rightarrow> (instant \<Rightarrow> date) \<Rightarrow> (date \<Rightarrow> string) \<Rightarrow> store \<Rightarrow>
   date \<Rightarrow> date \<Rightarrow> string \<Rightarrow> string \<Rightarrow> report_entry" where
  "audit_pair localize day_of str_date st start_check end_check code_from code_to =
     (let entry = \<lparr>From = code_from, To = code_to, Status = ''Missing File'',
                   Completeness = 0, Missing_Info = ''All''\<rparr>
      in case st (filename code_from code_to) of
           None \<Rightarrow> entry
         | Some Unreadable \<Rightarrow> entry\<lparr>Status := ''Error Reading''\<rparr>
         | Some (Frame has_timestamp df) \<Rightarrow>
             if df \<noteq> [] \<and> has_timestamp then
               let df_range = in_range localize start_check end_check df;
                   actual_count = length df_range
               in if actual_count = 0 then entry\<lparr>Status := ''No Data in Range''\<rparr>
                  else
                    (case completeness_of actual_count start_check end_check of
                       Inl e \<Rightarrow> entry\<lparr>Status := ''Error Reading''\<rparr>
                     | Inr completeness \<Rightarrow>
                         if completeness > 99 then
                           entry\<lparr>Status := ''Complete'', Completeness := completeness,
                                 Missing_Info := ''None''\<rparr>
                         else
                           entry\<lparr>Status := ''Partial'', Completeness := completeness,
                                 Missing_Info :=
                                   missing_days_of str_date
                                     (missing_of day_of start_check end_check df_range)\<rparr>)
             else entry)"

definition missing_data_analysis ::
  "(date \<Rightarrow> instant) \<Rightarrow> (instant \<Rightarrow> date) \<Rightarrow> (date \<Rightarrow> string) \<Rightarrow> store \<Rightarrow>
   country list \<Rightarrow> date \<Rightarrow> date \<Rightarrow> report_entry list" where
  "missing_data_analysis localize day_of str_date st countries start_check end_check =
     concat (map (\<lambda>country.
                    map (audit_pair localize day_of str_date st start_check end_check
                           (code country))
                        (neighbors country))
                 countries)"

section \<open>Country Total\<close>

text \<open>
  \<^verbatim>\<open>exports.add(df['flow'], fill_value=0)\<close>: the two series are aligned on the union of
  their timestamps; at a timestamp where exactly one side is missing or NaN that side
  counts as 0, where both are missing or NaN the result is NaN. A series is looked up by
  timestamp; where a timestamp is repeated the model reads its first row (the files
  written by the ingestion scripts have one row per timestamp).
\<close>

definition index_union :: "series \<Rightarrow> series \<Rightarrow> instant list" where
  "index_union a b = sort (remdups (map fst a @ map fst b))"

fun fill_add :: "val option \<Rightarrow> val option \<Rightarrow> val" where
  "fill_add (Some (Num x)) (Some (Num y)) = Num (x + y)"
| "fill_add (Some (Num x)) (Some NaN) = Num x"
| "fill_add (Some (Num x)) None = Num x"
| "fill_add (Some NaN) (Some (Num y)) = Num y"
| "fill_add None (Some (Num y)) = Num y"
| "fill_add (Some NaN) (Some NaN) = NaN"
| "fill_add (Some NaN) None = NaN"
| "fill_add None (Some NaN) = NaN"
| "fill_add None None = NaN"

definition series_add :: "series \<Rightarrow> series \<Rightarrow> series" where
  "series_add a b = map (\<lambda>t. (t, fill_add (map_of a t) (map_of b t))) (index_union a b)"

text \<open>One turn of either accumulation loop (lines 149 to 156 and 163 to 168).\<close>

definition accumulate :: "series \<Rightarrow> series option \<Rightarrow> series" where
  "accumulate acc df =
     (case df of
        None \<Rightarrow> acc
      | Some flow \<Rightarrow> if acc = [] then flow else series_add acc flow)"

definition exports_of :: "store \<Rightarrow> string \<Rightarrow> country \<Rightarrow> series" where
  "exports_of st target_code target_data =
     foldl accumulate [] (map (\<lambda>neighbor. get_flow_data st target_code neighbor)
                              (neighbors target_data))"

definition imports_of :: "store \<Rightarrow> country list \<Rightarrow> string \<Rightarrow> series" where
  "imports_of st countries target_code =
     foldl accumulate []
       (map (\<lambda>c. get_flow_data st (code c) target_code)
            (filter (\<lambda>c. target_code \<in> set (neighbors c)) countries))"

text \<open>
  \<^verbatim>\<open>pd.DataFrame({'Imports': imports, 'Exports': exports})\<close> has the union of the two
  indexes and NaN where a series has no row; with a scalar 0 for one column the frame
  has the rows of the other series. The last branch is the warning and the empty frame.
\<close>

definition column :: "series \<Rightarrow> instant \<Rightarrow> val" where
  "column s t = (case map_of s t of None \<Rightarrow> NaN | Some v \<Rightarrow> v)"

definition align_dates :: "series \<Rightarrow> series \<Rightarrow> string option \<times> (instant \<times> val \<times> val) list" where
  "align_dates imports exports =
     (if imports \<noteq> [] \<and> exports \<noteq> [] then
        (None, map (\<lambda>t. (t, column imports t, column exports t)) (index_union imports exports))
      else if imports \<noteq> [] then
        (None, map (\<lambda>row. (fst row, snd row, Num 0)) imports)
      else if exports \<noteq> [] then
        (None, map (\<lambda>row. (fst row, Num 0, snd row)) exports)
      else (Some ''No data found for this country.'', []))"

fun fillna :: "val \<Rightarrow> val" where
  "fillna NaN = Num 0"
| "fillna (Num x) = Num x"

fun val_sub :: "val \<Rightarrow> val \<Rightarrow> val" where
  "val_sub (Num x) (Num y) = Num (x - y)"
| "val_sub _ _ = NaN"

record balance_row =
  timestamp :: instant
  Imports :: val
  Exports :: val
  Net_Flow :: val

record balance =
  warning :: "string option"
  combined :: "balance_row list"

definition net_flow_row :: "instant \<times> val \<times> val \<Rightarrow> balance_row" where
  "net_flow_row row =
     (let imports = fillna (fst (snd row)); exports = fillna (snd (snd row))
      in \<lparr>timestamp = fst row, Imports = imports, Exports = exports,
          Net_Flow = val_sub exports imports\<rparr>)"

text \<open>
  The view up to the table \<^verbatim>\<open>combined\<close> with its \<^verbatim>\<open>Net Flow\<close> column (lines 141 to
  183); the date filter, the metrics and the charts that follow only read it.
  \<^verbatim>\<open>next(...)\<close> raises when no country has the selected code.
\<close>

definition country_total :: "store \<Rightarrow> country list \<Rightarrow> string \<Rightarrow> py_error + balance" where
  "country_total st countries target_code =
     (case find (\<lambda>c. code c = target_code) countries of
        None \<Rightarrow> Inl StopIteration
      | Some target_data \<Rightarrow>
          let exports = exports_of st target_code target_data;
              imports = imports_of st countries target_code;
              aligned = align_dates imports exports
          in Inr \<lparr>warning = fst aligned,
                  combined = (if snd aligned \<noteq> [] then map net_flow_row (snd aligned) else [])\<rparr>)"

text \<open>
  Vocabulary for the statements about the view: the series that a list of loads
  returned, those of the two loops in the order of the loops, the timestamps of a
  series, and the flow a series has at a timestamp with NaN and a missing row both read
  as 0.
\<close>

definition loaded :: "series option list \<Rightarrow> series list" where
  "loaded loads = concat (map (\<lambda>l. case l of None \<Rightarrow> [] | Some s \<Rightarrow> [s]) loads)"

definition export_series :: "store \<Rightarrow> country list \<Rightarrow> string \<Rightarrow> series list" where
  "export_series st countries target_code =
     (case find (\<lambda>c. code c = target_code) countries of
        None \<Rightarrow> []
      | Some target_data \<Rightarrow>
          loaded (map (\<lambda>neighbor. get_flow_data st target_code neighbor)
                      (neighbors target_data)))"

definition import_series :: "store \<Rightarrow> country list \<Rightarrow> string \<Rightarrow> series list" where
  "import_series st countries target_code =
     loaded (map (\<lambda>c. get_flow_data st (code c) target_code)
                 (filter (\<lambda>c. target_code \<in> set (neighbors c)) countries))"


definition timestamps :: "series \<Rightarrow> instant set" where
  "timestamps s = fst ` set s"

section \<open>Ingestion\<close>

text \<open>
  \<^verbatim>\<open>sort_values('timestamp')\<close> and \<^verbatim>\<open>drop_duplicates(subset=['timestamp'])\<close> with
  \<^verbatim>\<open>keep='first'\<close> (the default) and \<^verbatim>\<open>keep='last'\<close>. Rows with equal timestamps keep
  their order in the sort.
\<close>

definition sort_values :: "series \<Rightarrow> series" where
  "sort_values df = sort_key fst df"


fun drop_duplicates_last :: "series \<Rightarrow> series" where
  "drop_duplicates_last [] = []"
| "drop_duplicates_last (row # df) =
     (if fst row \<in> fst ` set df then drop_duplicates_last df
      else row # drop_duplicates_last df)"





section \<open>Example data\<close>

text \<open>
  A time line counted in hours with days of 24 hours, an hourly series of \<open>n\<close> rows
  starting at hour 0, and dates printed as their day number.
\<close>

definition hours_utc :: "date \<Rightarrow> instant" where
  "hours_utc d = 24 * d"

definition day_utc :: "instant \<Rightarrow> date" where
  "day_utc t = t div 24"

definition hourly :: "nat \<Rightarrow> series" where
  "hourly n = map (\<lambda>h. (int h, Num 100)) [0..<n]"

definition str_day :: "date \<Rightarrow> string" where
  "str_day d = (if d < 0 then ''-'' @ str_nat (nat (- d)) else str_nat (nat d))"

text \<open>
  Three countries: Albania and Bulgaria list Greece as a neighbour, Greece lists Bulgaria
  only. Three files: Albania to Greece (with one null flow), Bulgaria to Greece and
  Greece to Bulgaria.
\<close>

definition albania :: country where
  "albania = \<lparr>code = ''AL'', name = ''Albania'', neighbors = [''GR'']\<rparr>"

definition greece :: country where
  "greece = \<lparr>code = ''GR'', name = ''Greece'', neighbors = [''BG'']\<rparr>"

definition bulgaria :: country where
  "bulgaria = \<lparr>code = ''BG'', name = ''Bulgaria'', neighbors = [''GR'']\<rparr>"

definition balkan_store :: store where
  "balkan_store =
     [filename ''AL'' ''GR'' \<mapsto> Frame True [(0, Num 100), (1, NaN)],
      filename ''BG'' ''GR'' \<mapsto> Frame True [(1, Num 5), (2, Num 7)],
      filename ''GR'' ''BG'' \<mapsto> Frame True [(0, Num 10)]]"

text \<open>A store whose only file, Albania to Greece, holds a single null flow.\<close>

definition null_store :: store where
  "null_store = [filename ''AL'' ''GR'' \<mapsto> Frame True [(0, NaN)]]"

definition balkans :: "country list" where
  "balkans = [albania, greece, bulgaria]"

text \<open>The table of Greece over \<open>balkan_store\<close>.\<close>

definition greece_balance :: balance where
  "greece_balance =
     \<lparr>warning = None,
      combined =
        [\<lparr>timestamp = 0, Imports = Num 100, Exports = Num 10, Net_Flow = Num (- 90)\<rparr>,
         \<lparr>timestamp = 1, Imports = Num 5, Exports = Num 0, Net_Flow = Num (- 5)\<rparr>,
         \<lparr>timestamp = 2, Imports = Num 7, Exports = Num 0, Net_Flow = Num (- 7)\<rparr>]\<rparr>"

section \<open>Properties of the example data\<close>

lemma length_hourly: "length (hourly n) = n"
  by (simp add: hourly_def)

lemma in_range_hourly:
  assumes "int n \<le> 24 * e + 1"
  shows "in_range hours_utc 0 e (hourly n) = hourly n"
  unfolding in_range_def
proof (rule filter_True)
  show "\<forall>row \<in> set (hourly n). hours_utc 0 \<le> fst row \<and> fst row \<le> hours_utc e"
    using assms by (auto simp: hourly_def hours_utc_def)
qed

section \<open>The completeness report\<close>

lemma get_flow_data_Some:
  "get_flow_data st a b = Some df \<longleftrightarrow> st (filename a b) = Some (Frame True df) \<and> df \<noteq> []"
  by (auto simp: get_flow_data_def split: option.splits file_content.splits)

text \<open>
  The entry of a pair whose series exists, has a row in the range, and is checked over
  two different dates: the division succeeds and the status is decided by the
  comparison with 99.
\<close>

lemma audit_pair_computed:
  assumes "get_flow_data st a b = Some df" and "in_range L s e df \<noteq> []" and "s \<noteq> e"
  shows "audit_pair L D S st s e a b =
     (if 99 < min 100 (of_nat (length (in_range L s e df)) / of_int ((e - s) * 24) * 100 :: rat)
      then \<lparr>From = a, To = b, Status = ''Complete'',
            Completeness = min 100 (of_nat (length (in_range L s e df)) / of_int ((e - s) * 24) * 100),
            Missing_Info = ''None''\<rparr>
      else \<lparr>From = a, To = b, Status = ''Partial'',
            Completeness = min 100 (of_nat (length (in_range L s e df)) / of_int ((e - s) * 24) * 100),
            Missing_Info = missing_days_of S (missing_of D s e (in_range L s e df))\<rparr>)"
  using assms
  by (simp add: get_flow_data_Some audit_pair_def completeness_of_def Let_def)

lemma above_99_iff:
  assumes "0 < E"
  shows "(99 < min 100 (of_nat n / of_int E * 100 :: rat)) \<longleftrightarrow> 99 * E < 100 * int n"
proof -
  have pos: "(0::rat) < of_int E" using assms by simp
  have "(99 < min 100 (of_nat n / of_int E * 100 :: rat)) \<longleftrightarrow> (99 :: rat) < of_nat n * 100 / of_int E"
    by simp
  also have "\<dots> \<longleftrightarrow> (99 :: rat) * of_int E < of_nat n * 100"
    using pos by (simp add: pos_less_divide_eq)
  also have "\<dots> \<longleftrightarrow> (of_int (99 * E) :: rat) < of_int (100 * int n)"
    by (simp add: mult.commute)
  also have "\<dots> \<longleftrightarrow> 99 * E < 100 * int n"
    by (rule of_int_less_iff)
  finally show ?thesis .
qed

text \<open>No day of the range is ever removed from the missing days.\<close>

lemma missing_of_all_days:
  "missing_of D s e rows = map Naive [s..e]"
proof -
  have "Naive d \<notin> set (unique (map (\<lambda>row. Aware (D (fst row))) rows))" for d
    by (auto simp: unique_def)
  then show ?thesis
    by (simp add: missing_of_def)
qed

lemma audit_pair_Partial:
  assumes "Status (audit_pair L D S st s e a b) = ''Partial''"
      and "get_flow_data st a b = Some df"
  shows "Missing_Info (audit_pair L D S st s e a b) =
           missing_days_of S (missing_of D s e (in_range L s e df))"
  using assms
  by (auto simp: get_flow_data_Some audit_pair_def Let_def split: sum.splits if_splits)

lemma audit_pair_initial:
  assumes "Status (audit_pair L D S st s e a b) \<noteq> ''Complete''"
      and "Status (audit_pair L D S st s e a b) \<noteq> ''Partial''"
  shows "Completeness (audit_pair L D S st s e a b) = 0 \<and>
         Missing_Info (audit_pair L D S st s e a b) = ''All'' \<and>
         Status (audit_pair L D S st s e a b) \<in>
           {''Missing File'', ''Error Reading'', ''No Data in Range''}"
  using assms
  by (auto simp add: audit_pair_def Let_def
           split: option.splits file_content.splits sum.splits if_splits)

text \<open>
  Claim C1, as the code has it. For a pair whose series exists and has at least one row
  in the checked range, and a range whose end date is after its start date, the status
  is \<^verbatim>\<open>Complete\<close> exactly when the count of rows in the range is strictly more than
  99 percent of the expected hours (the days between the two dates times 24); then the
  missing information is \<^verbatim>\<open>None\<close>. Every other such entry is \<^verbatim>\<open>Partial\<close>, and so is a
  count of exactly 99 percent.
\<close>

theorem complete_iff_strictly_above_99:
  assumes "get_flow_data st code_from code_to = Some df"
      and "in_range localize start_check end_check df \<noteq> []"
      and "start_check < end_check"
      and "r = audit_pair localize day_of str_date st start_check end_check code_from code_to"
      and "actual_count = int (length (in_range localize start_check end_check df))"
      and "expected = (end_check - start_check) * 24"
  shows "(Status r = ''Complete'' \<longleftrightarrow> 99 * expected < 100 * actual_count) \<and>
         (Status r = ''Complete'' \<longrightarrow> Missing_Info r = ''None'') \<and>
         (Status r \<noteq> ''Complete'' \<longrightarrow> Status r = ''Partial'') \<and>
         (100 * actual_count = 99 * expected \<longrightarrow> Status r = ''Partial'')"
proof -
  have ne: "start_check \<noteq> end_check" and pos: "0 < (end_check - start_check) * 24"
    using assms(3) by simp_all
  note r = audit_pair_computed [OF assms(1) assms(2) ne, of day_of str_date]
  note iff = above_99_iff [OF pos, of "length (in_range localize start_check end_check df)"]
  show ?thesis
    unfolding assms(4) assms(5) assms(6) r using iff by auto
qed

text \<open>A full day of 24 hourly rows checked over one day is \<^verbatim>\<open>Complete\<close>.\<close>

theorem complete_iff_strictly_above_99_witness:
  "get_flow_data [filename ''AL'' ''GR'' \<mapsto> Frame True (hourly 24)] ''AL'' ''GR'' = Some (hourly 24) \<and>
   in_range hours_utc 0 1 (hourly 24) \<noteq> [] \<and>
   (0 :: date) < 1 \<and>
   Status (audit_pair hours_utc day_utc str_day
             [filename ''AL'' ''GR'' \<mapsto> Frame True (hourly 24)] 0 1 ''AL'' ''GR'') = ''Complete'' \<and>
   Missing_Info (audit_pair hours_utc day_utc str_day
             [filename ''AL'' ''GR'' \<mapsto> Frame True (hourly 24)] 0 1 ''AL'' ''GR'') = ''None''"
proof -
  have h1: "get_flow_data [filename ''AL'' ''GR'' \<mapsto> Frame True (hourly 24)] ''AL'' ''GR'' = Some (hourly 24)"
    by code_simp
  have h2: "in_range hours_utc 0 1 (hourly 24) \<noteq> []" by code_simp
  have h3: "(0 :: date) < 1" by simp
  have n: "int (length (in_range hours_utc 0 1 (hourly 24))) = 24" by code_simp
  from complete_iff_strictly_above_99 [OF h1 h2 h3 refl n [symmetric] refl, of day_utc str_day]
  show ?thesis using h1 h2 by simp
qed

text \<open>
  The claim as the specification words it fails: over 25 days (600 expected hours) a
  series with 594 rows in the range, exactly 99 percent, is \<^verbatim>\<open>Partial\<close>.
\<close>

theorem exactly_99_percent_is_partial:
  "get_flow_data [filename ''AL'' ''GR'' \<mapsto> Frame True (hourly 594)] ''AL'' ''GR'' = Some (hourly 594) \<and>
   length (in_range hours_utc 0 25 (hourly 594)) = 594 \<and>
   100 * (594 :: int) = 99 * ((25 - 0) * 24) \<and>
   Status (audit_pair hours_utc day_utc str_day
             [filename ''AL'' ''GR'' \<mapsto> Frame True (hourly 594)] 0 25 ''AL'' ''GR'') = ''Partial''"
proof -
  have "hourly 594 \<noteq> []"
    using length_hourly [of 594] by auto
  then have h1: "get_flow_data [filename ''AL'' ''GR'' \<mapsto> Frame True (hourly 594)] ''AL'' ''GR'' = Some (hourly 594)"
    by (simp add: get_flow_data_def)
  have n: "length (in_range hours_utc 0 25 (hourly 594)) = 594"
    by (simp add: in_range_hourly length_hourly)
  then have h2: "in_range hours_utc 0 25 (hourly 594) \<noteq> []" by auto
  have h3: "(0 :: date) \<noteq> 25" by simp
  show ?thesis
    using h1 n by (simp add: audit_pair_computed [OF h1 h2 h3])
qed

text \<open>
  The missing information of a \<^verbatim>\<open>Partial\<close> entry is made of all the days from the start
  date to the end date, whether rows fall on them or not.
\<close>

lemma partial_lists_every_day:
  assumes "Status (audit_pair L D S st s e a b) = ''Partial''"
      and "get_flow_data st a b = Some df"
  shows "Missing_Info (audit_pair L D S st s e a b) = missing_days_of S (map Naive [s..e])"
  using audit_pair_Partial [OF assms] by (simp add: missing_of_all_days)

text \<open>
  Claim C6 says that a \<^verbatim>\<open>Partial\<close> entry lists exactly the days of the range without an
  observation, and \<^verbatim>\<open>Partial hours missing\<close> when every day has one. The code does
  neither. With rows on days 0 and 1 of a range of days 0 to 3 the entry lists all four
  days, not days 2 and 3; with a row on each of the days 0 and 1 of a range of days 0 to
  1 (2 of 24 expected hours) it lists both days.
\<close>

theorem partial_lists_days_with_observations:
  "get_flow_data [filename ''AL'' ''GR'' \<mapsto> Frame True [(0, Num 100), (30, Num 90)]] ''AL'' ''GR'' =
     Some [(0, Num 100), (30, Num 90)] \<and>
   map (\<lambda>row. day_utc (fst row)) (in_range hours_utc 0 3 [(0, Num 100), (30, Num 90)]) = [0, 1] \<and>
   Status (audit_pair hours_utc day_utc str_day
      [filename ''AL'' ''GR'' \<mapsto> Frame True [(0, Num 100), (30, Num 90)]] 0 3 ''AL'' ''GR'') = ''Partial'' \<and>
   Missing_Info (audit_pair hours_utc day_utc str_day
      [filename ''AL'' ''GR'' \<mapsto> Frame True [(0, Num 100), (30, Num 90)]] 0 3 ''AL'' ''GR'') =
     ''0, 1, 2, 3'' \<and>
   map (\<lambda>row. day_utc (fst row)) (in_range hours_utc 0 1 [(0, Num 100), (24, Num 90)]) = [0, 1] \<and>
   Status (audit_pair hours_utc day_utc str_day
      [filename ''AL'' ''GR'' \<mapsto> Frame True [(0, Num 100), (24, Num 90)]] 0 1 ''AL'' ''GR'') = ''Partial'' \<and>
   Missing_Info (audit_pair hours_utc day_utc str_day
      [filename ''AL'' ''GR'' \<mapsto> Frame True [(0, Num 100), (24, Num 90)]] 0 1 ''AL'' ''GR'') =
     ''0, 1''"
  by code_simp

text \<open>
  Claim C7, as the code has it. For a pair whose series exists and has at least one row
  in the checked range, and a range whose two dates differ, the completeness of the
  entry is the count of rows in the range divided by the days between the two dates times
  24, times 100, capped at 100; it does not exceed 100.
\<close>

theorem completeness_formula:
  assumes "get_flow_data st code_from code_to = Some df"
      and "in_range localize start_check end_check df \<noteq> []"
      and "start_check \<noteq> end_check"
      and "r = audit_pair localize day_of str_date st start_check end_check code_from code_to"
  shows "Completeness r =
           min 100 (of_nat (length (in_range localize start_check end_check df)) /
                    of_int ((end_check - start_check) * 24) * 100) \<and>
         Completeness r \<le> 100"
  unfolding assms(4) audit_pair_computed [OF assms(1) assms(2) assms(3)]
  by simp

text \<open>Fifty hourly rows checked over four days: 50 of 96 hours.\<close>

theorem completeness_formula_witness:
  "get_flow_data [filename ''AL'' ''GR'' \<mapsto> Frame True (hourly 50)] ''AL'' ''GR'' = Some (hourly 50) \<and>
   in_range hours_utc 0 4 (hourly 50) \<noteq> [] \<and>
   (0 :: date) \<noteq> 4 \<and>
   Completeness (audit_pair hours_utc day_utc str_day
             [filename ''AL'' ''GR'' \<mapsto> Frame True (hourly 50)] 0 4 ''AL'' ''GR'') = 625 / 12"
proof -
  have h1: "get_flow_data [filename ''AL'' ''GR'' \<mapsto> Frame True (hourly 50)] ''AL'' ''GR'' = Some (hourly 50)"
    by code_simp
  have h2: "in_range hours_utc 0 4 (hourly 50) \<noteq> []" by code_simp
  have h3: "(0 :: date) \<noteq> 4" by simp
  have n: "length (in_range hours_utc 0 4 (hourly 50)) = 50" by code_simp
  from completeness_formula [OF h1 h2 h3 refl, of day_utc str_day]
  show ?thesis using h1 h2 by (simp add: n)
qed

text \<open>
  Without the condition on the dates the claim fails: when the start date and the end
  date are the same day and the series has a row at that very instant, the division by
  the zero expected hours raises, and the entry is \<^verbatim>\<open>Error Reading\<close> with the initial
  completeness.
\<close>

theorem zero_day_window_is_error:
  "get_flow_data [filename ''AL'' ''GR'' \<mapsto> Frame True (hourly 1)] ''AL'' ''GR'' = Some (hourly 1) \<and>
   length (in_range hours_utc 0 0 (hourly 1)) = 1 \<and>
   completeness_of 1 0 0 = Inl ZeroDivisionError \<and>
   audit_pair hours_utc day_utc str_day
      [filename ''AL'' ''GR'' \<mapsto> Frame True (hourly 1)] 0 0 ''AL'' ''GR'' =
     \<lparr>From = ''AL'', To = ''GR'', Status = ''Error Reading'', Completeness = 0,
      Missing_Info = ''All''\<rparr>"
  by code_simp

text \<open>
  Claim C9. When the file of a directed pair does not exist, \<^verbatim>\<open>get_flow_data\<close>
  returns \<open>None\<close>, and the entry of the report for that pair is \<^verbatim>\<open>Missing File\<close> with
  completeness 0 and missing information \<^verbatim>\<open>All\<close>, whatever the checked range is.
\<close>

theorem missing_file_unconditional:
  assumes "st (filename code_from code_to) = None"
  shows "get_flow_data st code_from code_to = None \<and>
         audit_pair localize day_of str_date st start_check end_check code_from code_to =
           \<lparr>From = code_from, To = code_to, Status = ''Missing File'', Completeness = 0,
            Missing_Info = ''All''\<rparr>"
  using assms by (simp add: get_flow_data_def audit_pair_def)

theorem missing_file_unconditional_witness:
  "[filename ''AL'' ''GR'' \<mapsto> Frame True (hourly 24)] (filename ''GR'' ''AL'') = None \<and>
   get_flow_data [filename ''AL'' ''GR'' \<mapsto> Frame True (hourly 24)] ''GR'' ''AL'' = None \<and>
   audit_pair hours_utc day_utc str_day [filename ''AL'' ''GR'' \<mapsto> Frame True (hourly 24)]
       0 25 ''GR'' ''AL'' =
     \<lparr>From = ''GR'', To = ''AL'', Status = ''Missing File'', Completeness = 0,
      Missing_Info = ''All''\<rparr>"
proof -
  have h: "[filename ''AL'' ''GR'' \<mapsto> Frame True (hourly 24)] (filename ''GR'' ''AL'') = None"
    by (simp add: filename_def)
  from missing_file_unconditional
         [where st = "[filename ''AL'' ''GR'' \<mapsto> Frame True (hourly 24)]"
            and code_from = "''GR''" and code_to = "''AL''", OF h] h
  show ?thesis by blast
qed

text \<open>
  Claim C10. Every entry of the report whose status is neither \<^verbatim>\<open>Complete\<close> nor
  \<^verbatim>\<open>Partial\<close> has completeness 0 and missing information \<^verbatim>\<open>All\<close>, the values the
  entry starts with; its status is then \<^verbatim>\<open>Missing File\<close>, \<^verbatim>\<open>Error Reading\<close> or
  \<^verbatim>\<open>No Data in Range\<close>.
\<close>

theorem report_keeps_initial_fields:
  assumes "entry \<in> set (missing_data_analysis localize day_of str_date st countries
                           start_check end_check)"
      and "Status entry \<noteq> ''Complete''"
      and "Status entry \<noteq> ''Partial''"
  shows "Completeness entry = 0 \<and> Missing_Info entry = ''All'' \<and>
         Status entry \<in> {''Missing File'', ''Error Reading'', ''No Data in Range''}"
proof -
  from assms(1) obtain a b where
    "entry = audit_pair localize day_of str_date st start_check end_check a b"
    by (auto simp: missing_data_analysis_def)
  with assms(2,3) show ?thesis
    using audit_pair_initial by blast
qed

theorem report_keeps_initial_fields_witness:
  "\<lparr>From = ''AL'', To = ''GR'', Status = ''No Data in Range'', Completeness = 0,
     Missing_Info = ''All''\<rparr>
     \<in> set (missing_data_analysis hours_utc day_utc str_day
               [filename ''AL'' ''GR'' \<mapsto> Frame True (hourly 24)] [albania] 2 3) \<and>
   Status \<lparr>From = ''AL'', To = ''GR'', Status = ''No Data in Range'', Completeness = 0,
     Missing_Info = ''All''\<rparr> \<noteq> ''Complete'' \<and>
   Status \<lparr>From = ''AL'', To = ''GR'', Status = ''No Data in Range'', Completeness = 0,
     Missing_Info = ''All''\<rparr> \<noteq> ''Partial'' \<and>
   Completeness \<lparr>From = ''AL'', To = ''GR'', Status = ''No Data in Range'', Completeness = 0,
     Missing_Info = ''All''\<rparr> = 0"
proof -
  let ?e = "\<lparr>From = ''AL'', To = ''GR'', Status = ''No Data in Range'', Completeness = 0,
     Missing_Info = ''All''\<rparr>"
  have h1: "?e \<in> set (missing_data_analysis hours_utc day_utc str_day
               [filename ''AL'' ''GR'' \<mapsto> Frame True (hourly 24)] [albania] 2 3)"
    by code_simp
  have h2: "Status ?e \<noteq> ''Complete''" and h3: "Status ?e \<noteq> ''Partial''" by simp_all
  from report_keeps_initial_fields [OF h1 h2 h3] h1 h2 h3 show ?thesis by blast
qed


section \<open>The energy balance of a country\<close>


lemma set_index_union: "set (index_union a b) = timestamps a \<union> timestamps b"
  by (simp add: index_union_def timestamps_def)


lemma map_fst_series_add: "map fst (series_add a b) = index_union a b"
  by (simp add: series_add_def comp_def)

lemma timestamps_series_add: "timestamps (series_add a b) = timestamps a \<union> timestamps b"
  using set_index_union [of a b] map_fst_series_add [of a b]
  by (metis list.set_map timestamps_def)






lemma timestamps_Nil: "timestamps [] = {}"
  by (simp add: timestamps_def)

lemma timestamps_accumulate:
  "timestamps (accumulate acc l) = timestamps acc \<union> (\<Union>s \<in> set (loaded [l]). timestamps s)"
  by (cases l) (simp_all add: accumulate_def loaded_def timestamps_series_add timestamps_Nil)



lemma loaded_Cons: "loaded (l # loads) = loaded [l] @ loaded loads"
  by (simp add: loaded_def)

lemma timestamps_foldl:
  "timestamps (foldl accumulate acc loads) =
     timestamps acc \<union> (\<Union>s \<in> set (loaded loads). timestamps s)"
proof (induction loads arbitrary: acc)
  case Nil
  then show ?case by (simp add: loaded_def)
next
  case (Cons l loads)
  show ?case
    unfolding foldl_Cons Cons.IH timestamps_accumulate loaded_Cons [of l loads] by auto
qed



lemma timestamps_empty_iff: "timestamps s = {} \<longleftrightarrow> s = []"
  by (simp add: timestamps_def)

lemma set_loaded: "s \<in> set (loaded loads) \<longleftrightarrow> Some s \<in> set loads"
  by (induction loads) (auto simp: loaded_def split: option.splits)

lemma loaded_nonempty:
  assumes "s \<in> set (loaded (map (\<lambda>x. get_flow_data st (f x) (g x)) xs))"
  shows "s \<noteq> []"
proof -
  from assms obtain x where "get_flow_data st (f x) (g x) = Some s"
    by (auto simp: set_loaded)
  then show ?thesis by (simp add: get_flow_data_Some)
qed

lemma foldl_accumulate_Nil_iff:
  assumes "\<forall>s \<in> set (loaded loads). s \<noteq> []"
  shows "foldl accumulate [] loads = [] \<longleftrightarrow> loaded loads = []"
proof -
  have "foldl accumulate [] loads = [] \<longleftrightarrow> (\<Union>s \<in> set (loaded loads). timestamps s) = {}"
    using timestamps_foldl [of "[]" loads]
    by (metis sup_bot_left timestamps_Nil timestamps_empty_iff)
  also have "\<dots> \<longleftrightarrow> loaded loads = []"
    using assms by (cases "loaded loads") (auto simp: timestamps_empty_iff)
  finally show ?thesis .
qed

text \<open>The rows of the table in terms of the two accumulated series.\<close>

lemma combined_rows:
  assumes "country_total st countries target_code = Inr res"
  obtains target_data where
    "find (\<lambda>c. code c = target_code) countries = Some target_data"
    "warning res = fst (align_dates (imports_of st countries target_code)
                                    (exports_of st target_code target_data))"
    "combined res = map net_flow_row
       (snd (align_dates (imports_of st countries target_code)
                         (exports_of st target_code target_data)))"
  using assms
  by (auto simp: country_total_def Let_def split: option.splits)









text \<open>The two accumulated series in terms of the series that were loaded.\<close>

lemma export_series_find:
  assumes "find (\<lambda>c. code c = target_code) countries = Some target_data"
  shows "export_series st countries target_code =
           loaded (map (\<lambda>neighbor. get_flow_data st target_code neighbor) (neighbors target_data))"
  using assms by (simp add: export_series_def)




lemma exports_of_Nil_iff:
  assumes "find (\<lambda>c. code c = target_code) countries = Some target_data"
  shows "exports_of st target_code target_data = [] \<longleftrightarrow>
           export_series st countries target_code = []"
  unfolding export_series_find [OF assms] exports_of_def
  by (rule foldl_accumulate_Nil_iff) (auto dest: loaded_nonempty [where f = "\<lambda>_. target_code" and g = "\<lambda>n. n"])




lemma imports_of_Nil_iff:
  "imports_of st countries target_code = [] \<longleftrightarrow> import_series st countries target_code = []"
  unfolding import_series_def imports_of_def
  by (rule foldl_accumulate_Nil_iff) (auto dest: loaded_nonempty [where f = code and g = "\<lambda>_. target_code"])







lemma index_union_Nil_iff: "index_union a b = [] \<longleftrightarrow> a = [] \<and> b = []"
proof -
  have "index_union a b = [] \<longleftrightarrow> set (index_union a b) = {}"
    by simp
  also have "\<dots> \<longleftrightarrow> a = [] \<and> b = []"
    unfolding set_index_union by (simp add: timestamps_empty_iff)
  finally show ?thesis .
qed

text \<open>
  Claim C8, as the code has it. When no load of either loop returned a series the view
  gives the warning and an empty table; in every other case it gives no warning and a
  table with at least one row.
\<close>

theorem no_data_signal:
  assumes "country_total st countries target_code = Inr res"
  shows "(export_series st countries target_code = [] \<and>
          import_series st countries target_code = [] \<longrightarrow>
            warning res = Some ''No data found for this country.'' \<and> combined res = []) \<and>
         (\<not> (export_series st countries target_code = [] \<and>
             import_series st countries target_code = []) \<longrightarrow>
            warning res = None \<and> combined res \<noteq> [])"
proof -
  from assms(1) obtain target_data where
    f: "find (\<lambda>c. code c = target_code) countries = Some target_data" and
    w: "warning res = fst (align_dates (imports_of st countries target_code)
                                    (exports_of st target_code target_data))" and
    c: "combined res = map net_flow_row
         (snd (align_dates (imports_of st countries target_code)
                           (exports_of st target_code target_data)))"
    by (rule combined_rows)
  show ?thesis
    unfolding w c exports_of_Nil_iff [OF f, symmetric] imports_of_Nil_iff [symmetric]
    by (auto simp: align_dates_def index_union_Nil_iff)
qed

text \<open>Bulgaria over \<open>null_store\<close> has no data; Greece over \<open>balkan_store\<close> has.\<close>

theorem no_data_signal_witness:
  "country_total null_store balkans ''BG'' =
     Inr \<lparr>warning = Some ''No data found for this country.'', combined = []\<rparr> \<and>
   export_series null_store balkans ''BG'' = [] \<and>
   import_series null_store balkans ''BG'' = [] \<and>
   country_total balkan_store balkans ''GR'' = Inr greece_balance \<and>
   export_series balkan_store balkans ''GR'' \<noteq> [] \<and>
   warning greece_balance = None \<and>
   combined greece_balance \<noteq> []"
proof -
  have a1: "country_total null_store balkans ''BG'' =
     Inr \<lparr>warning = Some ''No data found for this country.'', combined = []\<rparr>"
    by code_simp
  have a2: "export_series null_store balkans ''BG'' = []" by code_simp
  have a3: "import_series null_store balkans ''BG'' = []" by code_simp
  have b1: "country_total balkan_store balkans ''GR'' = Inr greece_balance" by code_simp
  have b2: "export_series balkan_store balkans ''GR'' \<noteq> []" by code_simp
  from no_data_signal [OF a1] no_data_signal [OF b1] a1 a2 a3 b1 b2
  show ?thesis by blast
qed

text \<open>
  An all-zero table does not show confirmed zero flows: a file whose only observation
  is null gives a table that is zero in every column.
\<close>

theorem all_zero_table_from_null_flow:
  "get_flow_data null_store ''AL'' ''GR'' = Some [(0, NaN)] \<and>
   export_series null_store balkans ''AL'' = [[(0, NaN)]] \<and>
   import_series null_store balkans ''AL'' = [] \<and>
   country_total null_store balkans ''AL'' =
     Inr \<lparr>warning = None,
          combined = [\<lparr>timestamp = 0, Imports = Num 0, Exports = Num 0, Net_Flow = Num 0\<rparr>]\<rparr>"
  by code_simp

section \<open>Consolidation of ingested data\<close>






lemma set_sort_values: "set (sort_values df) = set df"
  by (simp add: sort_values_def)







text \<open>Keeping the last row of every timestamp.\<close>

lemma set_drop_duplicates_last_subset: "set (drop_duplicates_last df) \<subseteq> set df"
  by (induction df) auto














end
